theory Spec2Isabelle
  imports Main
begin

section \<open>Behaviour monitor (backend/ueba/monitor.py)\<close>

subsection \<open>Wall-clock time\<close>

text \<open>
  A \<^verbatim>\<open>datetime\<close> is the number of microseconds since 1970-01-01T00:00:00 (a Thursday,
  weekday 3 in Python's numbering). The difference of two datetimes is a \<^verbatim>\<open>timedelta\<close>,
  normalised by Python to days, seconds in \<open>[0, 86400)\<close> and microseconds; the attribute
  \<^verbatim>\<open>.seconds\<close> is the middle component only.
\<close>

definition td_seconds :: "int \<Rightarrow> int" where
  "td_seconds d = (d mod 86400000000) div 1000000"

definition hour_of :: "int \<Rightarrow> int" where
  "hour_of t = (t div 3600000000) mod 24"

definition weekday_of :: "int \<Rightarrow> int" where
  "weekday_of t = (t div 86400000000 + 3) mod 7"

subsection \<open>Data\<close>

datatype error = Exception string

record activity =
  agent :: string
  action :: string
  metadata :: "(string \<times> string) list"
  timestamp :: int
  hour :: int
  day_of_week :: int

record pattern =
  max_calls_per_minute :: int
  allowed_actions :: "string list"

text \<open>One entry of the list \<^verbatim>\<open>anomalies\<close>; \<open>anomaly_type\<close> is the key \<^verbatim>\<open>"type"\<close>.\<close>

record anomaly =
  anomaly_type :: string
  severity :: string
  message :: string

text \<open>The dictionary returned by \<^verbatim>\<open>_check_anomaly\<close>; \<open>rep_agent\<close> and \<open>rep_action\<close> are its
  keys \<^verbatim>\<open>"agent"\<close> and \<^verbatim>\<open>"action"\<close>.\<close>

record anomaly_report =
  detected :: bool
  anomalies :: "anomaly list"
  rep_agent :: string
  rep_action :: string

text \<open>What the monitor hands to the logger: the warning of \<^verbatim>\<open>log_agent_activity\<close>, and the
  error line and the \<^verbatim>\<open>security_log\<close> dictionary (activity, anomaly, timestamp,
  action taken) of \<^verbatim>\<open>_handle_anomaly\<close>.\<close>

datatype log_record =
    Warning_alert string string
  | Error_security_alert anomaly_report
  | Info_security_log activity anomaly_report int string

text \<open>
  The outlier model is an object with a method \<^verbatim>\<open>predict\<close>; the call
  \<^verbatim>\<open>self.model.predict([features])\<close> followed by \<^verbatim>\<open>prediction[0]\<close> either raises or gives a
  number. The feature vector is \<^verbatim>\<open>[agent_id, actions_per_hour, current_hour, current_day,
  success_rate]\<close> with the constant success rate \<^verbatim>\<open>1.0\<close> written \<open>1\<close>.
\<close>

type_synonym predictor = "int list \<Rightarrow> error + int"

text \<open>
  The environment of the monitor: \<open>utcnow e k\<close> is what \<^verbatim>\<open>datetime.utcnow()\<close> returns the
  \<open>k\<close>-th time the monitor calls it, and \<open>SKLEARN_AVAILABLE\<close> is the module flag set by
  the guarded import.
\<close>

record env =
  utcnow :: "nat \<Rightarrow> int"
  SKLEARN_AVAILABLE :: bool

text \<open>
  The attributes of a \<^verbatim>\<open>UEBAMonitor\<close>, with the two effects it has on its surroundings:
  \<open>ticks\<close> counts the clock readings it has made so far and \<open>sink\<close> collects the records handed to
  the logger.
\<close>

record monitor =
  activity_logs :: "activity list"
  model :: "predictor option"
  agent_activity_counts :: "string \<rightharpoonup> nat"
  normal_patterns :: "string \<rightharpoonup> pattern"
  ticks :: nat
  sink :: "log_record list"

subsection \<open>Construction\<close>

definition default_patterns :: "(string \<times> pattern) list" where
  "default_patterns =
    [(''master_agent'', \<lparr>max_calls_per_minute = 100,
        allowed_actions = [''process_telematics_data'', ''handle_customer_query'',
          ''schedule_maintenance'', ''submit_feedback'', ''get_vehicle_status'']\<rparr>),
     (''data_analysis_agent'', \<lparr>max_calls_per_minute = 200,
        allowed_actions = [''analyze_data'', ''get_latest_analysis'']\<rparr>),
     (''diagnosis_agent'', \<lparr>max_calls_per_minute = 100,
        allowed_actions = [''predict_failures'', ''get_predictions'']\<rparr>),
     (''customer_agent'', \<lparr>max_calls_per_minute = 50,
        allowed_actions = [''process_message'', ''send_alert'']\<rparr>),
     (''scheduling_agent'', \<lparr>max_calls_per_minute = 30,
        allowed_actions = [''schedule_appointment'', ''auto_schedule'',
          ''get_available_slots'', ''cancel_appointment'']\<rparr>),
     (''feedback_agent'', \<lparr>max_calls_per_minute = 20,
        allowed_actions = [''process_feedback'', ''get_feedback_summary'']\<rparr>)]"

text \<open>
  \<^verbatim>\<open>_create_model\<close>: without scikit-learn there is no model; otherwise a forest is fitted
  and written to disk, which gives the model or raises (\<open>trained\<close>).
\<close>

definition create_model :: "env \<Rightarrow> error + predictor \<Rightarrow> error + predictor option" where
  "create_model e trained =
     (if \<not> SKLEARN_AVAILABLE e then Inr None
      else (case trained of Inl x \<Rightarrow> Inl x | Inr p \<Rightarrow> Inr (Some p)))"

text \<open>
  \<^verbatim>\<open>_load_or_create_model\<close>: \<open>stored\<close> is \<open>None\<close> when the model file does not exist and
  otherwise what \<^verbatim>\<open>joblib.load\<close> does with it (it raises, or gives the pickled object,
  which may be \<^verbatim>\<open>None\<close>). A load that raises falls back to \<^verbatim>\<open>_create_model\<close>.
\<close>

definition load_or_create_model ::
  "env \<Rightarrow> (error + predictor option) option \<Rightarrow> error + predictor \<Rightarrow> error + predictor option" where
  "load_or_create_model e stored trained =
     (case stored of
        Some (Inr p) \<Rightarrow> Inr p
      | Some (Inl _) \<Rightarrow> create_model e trained
      | None \<Rightarrow> create_model e trained)"

text \<open>\<^verbatim>\<open>__init__\<close>, started when \<open>k\<close> clock readings have been made.\<close>

definition init_monitor ::
  "env \<Rightarrow> (error + predictor option) option \<Rightarrow> error + predictor \<Rightarrow> nat \<Rightarrow> error + monitor" where
  "init_monitor e stored trained k =
     (case load_or_create_model e stored trained of
        Inl x \<Rightarrow> Inl x
      | Inr p \<Rightarrow> Inr \<lparr>activity_logs = [], model = p, agent_activity_counts = Map.empty,
                    normal_patterns = map_of default_patterns, ticks = k, sink = []\<rparr>)"

subsection \<open>The ledger\<close>

text \<open>The slice \<^verbatim>\<open>xs[-n:]\<close> for a positive \<open>n\<close>: the last \<open>n\<close> elements, or all of a shorter list.\<close>

definition last_n :: "nat \<Rightarrow> 'a list \<Rightarrow> 'a list" where
  "last_n n xs = drop (length xs - n) xs"

text \<open>\<^verbatim>\<open>self.activity_logs.append(activity)\<close> followed by the cut to the last 10000 logs.\<close>

definition append_activity :: "activity list \<Rightarrow> activity \<Rightarrow> activity list" where
  "append_activity logs a =
     (let logs' = logs @ [a]
      in if length logs' > 10000 then last_n 10000 logs' else logs')"

subsection \<open>Rendering numbers in messages\<close>

fun str_nat :: "nat \<Rightarrow> string" where
  "str_nat n =
     (if n < 10 then [char_of (48 + n)]
      else str_nat (n div 10) @ [char_of (48 + n mod 10)])"

declare str_nat.simps [simp del]

definition str_int :: "int \<Rightarrow> string" where
  "str_int i = (if i < 0 then ''-'' @ str_nat (nat (- i)) else str_nat (nat i))"

subsection \<open>The three checks of \<^verbatim>\<open>_check_anomaly\<close>\<close>

text \<open>
  The comprehension of check 1 over \<^verbatim>\<open>self.activity_logs[-100:]\<close>: a log of the agent is kept
  when the seconds component of its age is below 60. The clock is read once for every log
  of the agent (the \<^verbatim>\<open>and\<close> does not read it for the others); \<open>k\<close> counts the readings.
\<close>

fun recent_activities :: "env \<Rightarrow> string \<Rightarrow> activity list \<Rightarrow> nat \<Rightarrow> activity list \<times> nat" where
  "recent_activities e agent_name [] k = ([], k)"
| "recent_activities e agent_name (l # ls) k =
     (if agent l = agent_name then
        (case recent_activities e agent_name ls (Suc k) of
           (r, k') \<Rightarrow>
             (if td_seconds (utcnow e k - timestamp l) < 60 then l # r else r, k'))
      else recent_activities e agent_name ls k)"

definition rate_limit_check :: "env \<Rightarrow> monitor \<Rightarrow> string \<Rightarrow> anomaly list \<times> nat" where
  "rate_limit_check e m agent_name =
     (case normal_patterns m agent_name of
        None \<Rightarrow> ([], ticks m)
      | Some p \<Rightarrow>
          (case recent_activities e agent_name (last_n 100 (activity_logs m)) (ticks m) of
             (recent, k) \<Rightarrow>
               (if int (length recent) > max_calls_per_minute p
                then [\<lparr>anomaly_type = ''rate_limit_exceeded'', severity = ''high'',
                        message = ''Agent '' @ agent_name @ '' exceeded rate limit (''
                          @ str_int (max_calls_per_minute p) @ '' calls/min)''\<rparr>]
                else [], k)))"

definition unauthorized_check :: "monitor \<Rightarrow> string \<Rightarrow> string \<Rightarrow> anomaly list" where
  "unauthorized_check m agent_name act =
     (case normal_patterns m agent_name of
        None \<Rightarrow> []
      | Some p \<Rightarrow>
          (if act \<notin> set (allowed_actions p)
           then [\<lparr>anomaly_type = ''unauthorized_action'', severity = ''critical'',
                   message = ''Agent '' @ agent_name @ '' attempted unauthorized action: '' @ act\<rparr>]
           else []))"

definition agent_id_map :: "(string \<times> int) list" where
  "agent_id_map =
     [(''master_agent'', 0), (''data_analysis_agent'', 1), (''diagnosis_agent'', 2),
      (''customer_agent'', 3), (''scheduling_agent'', 4), (''feedback_agent'', 5)]"

text \<open>\<^verbatim>\<open>_extract_features\<close>, started when \<open>k\<close> clock readings have been made.\<close>

definition extract_features ::
  "env \<Rightarrow> monitor \<Rightarrow> string \<Rightarrow> string \<Rightarrow> nat \<Rightarrow> int list option \<times> nat" where
  "extract_features e m agent_name act k =
     (let recent = filter (\<lambda>l. agent l = agent_name) (last_n 100 (activity_logs m))
      in if length recent < 5 then (None, k)
         else
           (let agent_id = (case map_of agent_id_map agent_name of None \<Rightarrow> 0 | Some i \<Rightarrow> i);
                actions_per_hour = int (length recent);
                current_hour = hour_of (utcnow e k);
                current_day = weekday_of (utcnow e (Suc k))
            in (Some [agent_id, actions_per_hour, current_hour, current_day, 1], Suc (Suc k))))"

text \<open>The body of the \<^verbatim>\<open>try\<close> of check 3, for a model \<open>p\<close>: it may raise.\<close>

definition ml_try :: "env \<Rightarrow> monitor \<Rightarrow> predictor \<Rightarrow> string \<Rightarrow> string \<Rightarrow> nat
    \<Rightarrow> (error + anomaly list) \<times> nat" where
  "ml_try e m p agent_name act k =
     (case extract_features e m agent_name act k of
        (None, k') \<Rightarrow> (Inr [], k')
      | (Some features, k') \<Rightarrow>
          (case p features of
             Inl x \<Rightarrow> (Inl x, k')
           | Inr prediction \<Rightarrow>
               (if prediction = - 1
                then (Inr [\<lparr>anomaly_type = ''ml_anomaly'', severity = ''medium'',
                            message = ''ML model detected anomalous pattern for agent ''
                              @ agent_name\<rparr>], k')
                else (Inr [], k'))))"

text \<open>Check 3 with its guard and its \<^verbatim>\<open>except Exception: pass\<close>.\<close>

definition ml_check :: "env \<Rightarrow> monitor \<Rightarrow> string \<Rightarrow> string \<Rightarrow> nat \<Rightarrow> anomaly list \<times> nat" where
  "ml_check e m agent_name act k =
     (case model m of
        None \<Rightarrow> ([], k)
      | Some p \<Rightarrow>
          (if SKLEARN_AVAILABLE e \<and> length (activity_logs m) \<ge> 10 then
             (case ml_try e m p agent_name act k of
                (Inl _, k') \<Rightarrow> ([], k')
              | (Inr found, k') \<Rightarrow> (found, k'))
           else ([], k)))"

definition check_anomaly ::
  "env \<Rightarrow> monitor \<Rightarrow> string \<Rightarrow> string \<Rightarrow> anomaly_report option \<times> nat" where
  "check_anomaly e m agent_name act =
     (case rate_limit_check e m agent_name of
        (a1, k1) \<Rightarrow>
          (case ml_check e m agent_name act k1 of
             (a3, k3) \<Rightarrow>
               (let found = a1 @ unauthorized_check m agent_name act @ a3
                in (if found \<noteq> []
                    then Some \<lparr>detected = True, anomalies = found,
                               rep_agent = agent_name, rep_action = act\<rparr>
                    else None, k3))))"

subsection \<open>Recording an activity\<close>

text \<open>\<^verbatim>\<open>_handle_anomaly\<close>: two log lines, the second with a fresh clock reading.\<close>

definition handle_anomaly :: "env \<Rightarrow> monitor \<Rightarrow> activity \<Rightarrow> anomaly_report \<Rightarrow> monitor" where
  "handle_anomaly e m a r =
     m\<lparr>sink := sink m @ [Error_security_alert r,
                          Info_security_log a r (utcnow e (ticks m)) ''logged''],
       ticks := Suc (ticks m)\<rparr>"

text \<open>The dictionary \<^verbatim>\<open>activity\<close> built first, with its three clock readings.\<close>

definition new_activity ::
  "env \<Rightarrow> nat \<Rightarrow> string \<Rightarrow> string \<Rightarrow> (string \<times> string) list option \<Rightarrow> activity" where
  "new_activity e k agent_name act md =
     \<lparr>agent = agent_name, action = act,
      metadata = (case md of None \<Rightarrow> [] | Some d \<Rightarrow> d),
      timestamp = utcnow e k,
      hour = hour_of (utcnow e (Suc k)),
      day_of_week = weekday_of (utcnow e (Suc (Suc k)))\<rparr>"

text \<open>The monitor once the activity is appended and the ledger cut.\<close>

definition with_activity ::
  "env \<Rightarrow> monitor \<Rightarrow> string \<Rightarrow> string \<Rightarrow> (string \<times> string) list option \<Rightarrow> monitor" where
  "with_activity e m agent_name act md =
     m\<lparr>activity_logs :=
         append_activity (activity_logs m) (new_activity e (ticks m) agent_name act md),
       ticks := Suc (Suc (Suc (ticks m)))\<rparr>"

text \<open>
  \<^verbatim>\<open>log_agent_activity\<close>. The function has no \<^verbatim>\<open>return\<close> statement, so the value of a call
  is \<^verbatim>\<open>None\<close>; it is the first component of the result, the monitor after the call the
  second.
\<close>

definition log_agent_activity ::
  "env \<Rightarrow> monitor \<Rightarrow> string \<Rightarrow> string \<Rightarrow> (string \<times> string) list option
    \<Rightarrow> anomaly_report option \<times> monitor" where
  "log_agent_activity e m agent_name act md =
     (let a = new_activity e (ticks m) agent_name act md;
          m1 = with_activity e m agent_name act md;
          key = agent_name @ '':'' @ act
      in (case check_anomaly e m1 agent_name act of
            (found, k') \<Rightarrow>
              (let m2 = (case found of
                           None \<Rightarrow> m1\<lparr>ticks := k'\<rparr>
                         | Some r \<Rightarrow>
                             handle_anomaly e
                               (m1\<lparr>ticks := k', sink := sink m1 @ [Warning_alert agent_name act]\<rparr>)
                               a r)
               in (None,
                   m2\<lparr>agent_activity_counts :=
                        (agent_activity_counts m2)(key \<mapsto>
                          (case agent_activity_counts m2 key of
                             None \<Rightarrow> 1 | Some c \<Rightarrow> Suc c))\<rparr>))))"

text \<open>A sequence of calls, oldest first, each given as agent, action and metadata.\<close>

fun log_all :: "env \<Rightarrow> monitor \<Rightarrow> (string \<times> string \<times> (string \<times> string) list option) list
    \<Rightarrow> monitor" where
  "log_all e m [] = m"
| "log_all e m ((agent_name, act, md) # cs) =
     log_all e (snd (log_agent_activity e m agent_name act md)) cs"

subsection \<open>Reading the results\<close>

text \<open>The findings of a report, none for \<^verbatim>\<open>None\<close>.\<close>

definition findings :: "anomaly_report option \<Rightarrow> anomaly list" where
  "findings r = (case r of None \<Rightarrow> [] | Some x \<Rightarrow> anomalies x)"

text \<open>The reports that reached \<^verbatim>\<open>_handle_anomaly\<close>, in order.\<close>

fun reported :: "log_record list \<Rightarrow> anomaly_report list" where
  "reported [] = []"
| "reported (Error_security_alert r # rs) = r # reported rs"
| "reported (_ # rs) = reported rs"

section \<open>Scheduling agent (backend/agents/scheduling_agent.py)\<close>

text \<open>
  The dictionary \<^verbatim>\<open>appointment\<close>. A local \<^verbatim>\<open>datetime\<close> is again a number of microseconds;
  \<open>apt_date\<close> is the datetime whose ISO text the key \<^verbatim>\<open>"date"\<close> holds.
\<close>

record appointment =
  apt_vehicle_id :: string
  apt_service_type :: "string option"
  apt_date :: int
  apt_time :: int
  apt_status :: string
  estimated_duration :: int
  created_at :: int

text \<open>
  The result of \<^verbatim>\<open>schedule_appointment\<close>: \<^verbatim>\<open>{"status": "scheduled", ...}\<close> with the appointment
  (its message, a rendering of date and time, is left out), or \<^verbatim>\<open>{"status": "error", ...}\<close>
  with its message.
\<close>

datatype schedule_result = Scheduled appointment | Schedule_error string

text \<open>
  The two operations of the database service that the agent calls. Each opens a session
  first and so raises when the database is not connected. The query gives the value
  under \<^verbatim>\<open>"time"\<close> of every appointment of that day.
\<close>

record db_service =
  get_appointments_by_date :: "int \<Rightarrow> error + int option list"
  store_appointment :: "appointment \<Rightarrow> error + unit"

definition one_day :: int where
  "one_day = 86400000000"

definition date_of :: "int \<Rightarrow> int" where
  "date_of t = t div one_day"

definition available_slots :: "int list" where
  "available_slots = [9, 10, 11, 12, 13, 14, 15, 16]"

definition find_available_slot :: "db_service \<Rightarrow> int \<Rightarrow> error + (int \<times> int) option" where
  "find_available_slot db d =
     (case get_appointments_by_date db (date_of d) of
        Inl x \<Rightarrow> Inl x
      | Inr booked_times \<Rightarrow>
          (case filter (\<lambda>slot. Some slot \<notin> set booked_times) available_slots of
             [] \<Rightarrow> Inr None
           | slot # _ \<Rightarrow> Inr (Some (d, slot))))"

definition get_service_duration :: "string option \<Rightarrow> int" where
  "get_service_duration service_type =
     (case service_type of
        None \<Rightarrow> 60
      | Some s \<Rightarrow>
          (case map_of
             [(''battery_replacement'', 60), (''brake_replacement'', 120), (''oil_change'', 30),
              (''engine_inspection'', 90), (''general_inspection'', 60),
              (''diagnostic_check'', 45), (''tire_rotation'', 30), (''tire_replacement'', 60)] s of
             None \<Rightarrow> 60 | Some d \<Rightarrow> d))"

text \<open>
  \<^verbatim>\<open>schedule_appointment\<close>. \<open>now\<close> and \<open>utc\<close> are the readings of \<^verbatim>\<open>datetime.now()\<close> and
  \<^verbatim>\<open>datetime.utcnow()\<close> during the call. \<open>preferred_date\<close> is \<open>None\<close> for no (or an empty)
  text and otherwise what \<^verbatim>\<open>datetime.fromisoformat\<close> does with the text. Every exception in
  the body is logged and raised again.
\<close>

definition schedule_appointment ::
  "db_service \<Rightarrow> int \<Rightarrow> int \<Rightarrow> string \<Rightarrow> string option \<Rightarrow> (error + int) option
    \<Rightarrow> error + schedule_result" where
  "schedule_appointment db now utc vehicle service_type preferred_date =
     (let appointment_date =
            (case preferred_date of Some (Inr d) \<Rightarrow> d | _ \<Rightarrow> now + one_day)
      in case find_available_slot db appointment_date of
           Inl x \<Rightarrow> Inl x
         | Inr first_try \<Rightarrow>
             (case (case first_try of
                      Some slot \<Rightarrow> Inr (Some slot)
                    | None \<Rightarrow> find_available_slot db (appointment_date + one_day)) of
                Inl x \<Rightarrow> Inl x
              | Inr None \<Rightarrow>
                  Inr (Schedule_error ''No available slots found. Please try a different date.'')
              | Inr (Some (d, slot)) \<Rightarrow>
                  (let apt = \<lparr>apt_vehicle_id = vehicle, apt_service_type = service_type,
                               apt_date = d, apt_time = slot, apt_status = ''scheduled'',
                               estimated_duration = get_service_duration service_type,
                               created_at = utc\<rparr>
                   in case store_appointment db apt of
                        Inl x \<Rightarrow> Inl x
                      | Inr _ \<Rightarrow> Inr (Scheduled apt))))"

text \<open>\<^verbatim>\<open>auto_schedule\<close>: the preferred date is the ISO text of tomorrow, which parses back.\<close>

definition auto_schedule ::
  "db_service \<Rightarrow> int \<Rightarrow> int \<Rightarrow> string \<Rightarrow> string option \<Rightarrow> error + schedule_result" where
  "auto_schedule db now utc vehicle service_type =
     schedule_appointment db now utc vehicle service_type (Some (Inr (now + one_day)))"

section \<open>Master agent (backend/agents/master_agent.py)\<close>

text \<open>
  The keys of the diagnosis result that the master agent reads or writes; \<open>auto_schedule_flag\<close>
  is the key \<^verbatim>\<open>"auto_schedule"\<close>, \<open>scheduling\<close> is absent (\<open>None\<close>) until the master agent sets
  it, and \<open>details\<close> stands for the other keys.
\<close>

record ('s, 'd) diagnosis =
  critical_alert :: bool
  auto_schedule_flag :: bool
  recommended_service :: "string option"
  scheduling :: "'s option"
  details :: 'd

text \<open>
  The four agents the pipeline calls, each by the one method it uses: \<^verbatim>\<open>analyze_data\<close>,
  \<^verbatim>\<open>predict_failures\<close>, \<^verbatim>\<open>send_alert\<close> and \<^verbatim>\<open>auto_schedule\<close>. Each returns or raises.
\<close>

record ('v, 'a, 's, 'd, 'n) agents =
  data_analysis_agent :: "string \<Rightarrow> (string \<rightharpoonup> 'v) \<Rightarrow> error + 'a"
  diagnosis_agent :: "string \<Rightarrow> 'a \<Rightarrow> error + ('s, 'd) diagnosis"
  customer_agent :: "string \<Rightarrow> ('s, 'd) diagnosis \<Rightarrow> error + 'n"
  scheduling_agent :: "string \<Rightarrow> string option \<Rightarrow> error + 's"

text \<open>The dictionary a run returns.\<close>

record ('v, 'a, 's, 'd) outcome =
  out_vehicle_id :: string
  analysis :: 'a
  diagnosis :: "('s, 'd) diagnosis"
  out_timestamp :: "'v option"

text \<open>What a run does to its surroundings, in order: a record in the monitor or a call of an agent.\<close>

datatype call =
    Log_activity string string
  | Analyze_data string
  | Predict_failures string
  | Send_alert string
  | Auto_schedule string "string option"

fun is_record :: "call \<Rightarrow> bool" where
  "is_record (Log_activity _ _) = True"
| "is_record _ = False"

text \<open>
  \<^verbatim>\<open>process_telematics_data\<close>. The result is what the call returns or raises (the handler
  of the \<^verbatim>\<open>try\<close> logs and raises again), the monitor after the call, and the calls made.
\<close>

definition process_telematics_data ::
  "('v, 'a, 's, 'd, 'n) agents \<Rightarrow> env \<Rightarrow> monitor \<Rightarrow> string \<Rightarrow> (string \<rightharpoonup> 'v)
    \<Rightarrow> (error + ('v, 'a, 's, 'd) outcome) \<times> monitor \<times> call list" where
  "process_telematics_data A e m vehicle sensor_data =
     (let m1 = snd (log_agent_activity e m ''master_agent'' ''process_telematics_data''
                 (Some [(''vehicle_id'', vehicle)]));
          t1 = [Log_activity ''master_agent'' ''process_telematics_data'', Analyze_data vehicle]
      in case data_analysis_agent A vehicle sensor_data of
           Inl x \<Rightarrow> (Inl x, m1, t1)
         | Inr analysis_result \<Rightarrow>
             (let t2 = t1 @ [Predict_failures vehicle]
              in case diagnosis_agent A vehicle analysis_result of
                   Inl x \<Rightarrow> (Inl x, m1, t2)
                 | Inr diagnosis_result \<Rightarrow>
                     (if critical_alert diagnosis_result then
                        (let t3 = t2 @ [Send_alert vehicle]
                         in case customer_agent A vehicle diagnosis_result of
                              Inl x \<Rightarrow> (Inl x, m1, t3)
                            | Inr _ \<Rightarrow>
                                (if auto_schedule_flag diagnosis_result then
                                   (let t4 = t3 @ [Auto_schedule vehicle
                                                    (recommended_service diagnosis_result)]
                                    in case scheduling_agent A vehicle
                                              (recommended_service diagnosis_result) of
                                         Inl x \<Rightarrow> (Inl x, m1, t4)
                                       | Inr schedule_result \<Rightarrow>
                                           (Inr \<lparr>out_vehicle_id = vehicle,
                                                 analysis = analysis_result,
                                                 diagnosis = diagnosis_result
                                                   \<lparr>scheduling := Some schedule_result\<rparr>,
                                                 out_timestamp = sensor_data ''timestamp''\<rparr>,
                                            m1, t4))
                                 else
                                   (Inr \<lparr>out_vehicle_id = vehicle, analysis = analysis_result,
                                         diagnosis = diagnosis_result,
                                         out_timestamp = sensor_data ''timestamp''\<rparr>,
                                    m1, t3)))
                      else
                        (Inr \<lparr>out_vehicle_id = vehicle, analysis = analysis_result,
                              diagnosis = diagnosis_result,
                              out_timestamp = sensor_data ''timestamp''\<rparr>,
                         m1, t2))))"

section \<open>Reading the results and sample inputs\<close>

text \<open>The findings of checks 1 and 2 alone, in the order of \<^verbatim>\<open>_check_anomaly\<close>.\<close>

definition policy_findings :: "env \<Rightarrow> monitor \<Rightarrow> string \<Rightarrow> string \<Rightarrow> anomaly list" where
  "policy_findings e m a act = fst (rate_limit_check e m a) @ unauthorized_check m a act"

text \<open>A clock that advances by one microsecond at every reading, from 2023-11-14T22:13:20.\<close>

definition clock_env :: env where
  "clock_env = \<lparr>utcnow = (\<lambda>k. 1700000000000000 + int k), SKLEARN_AVAILABLE = True\<rparr>"

text \<open>The same clock in a process without scikit-learn.\<close>

definition no_sklearn_env :: env where
  "no_sklearn_env = \<lparr>utcnow = (\<lambda>k. 1700000000000000 + int k), SKLEARN_AVAILABLE = False\<rparr>"

text \<open>The monitor that \<^verbatim>\<open>__init__\<close> builds when there is neither a model file nor scikit-learn.\<close>

definition fresh_monitor :: monitor where
  "fresh_monitor = \<lparr>activity_logs = [], model = None, agent_activity_counts = Map.empty,
     normal_patterns = map_of default_patterns, ticks = 0, sink = []\<rparr>"

text \<open>Events, models and ledgers for the examples.\<close>

definition sample_event :: "nat \<Rightarrow> activity" where
  "sample_event i = \<lparr>agent = ''master_agent'', action = ''get_vehicle_status'', metadata = [],
     timestamp = int i, hour = 0, day_of_week = 3\<rparr>"

definition status_event :: activity where
  "status_event = \<lparr>agent = ''master_agent'', action = ''get_vehicle_status'', metadata = [],
     timestamp = 1700000000000000, hour = 22, day_of_week = 1\<rparr>"

definition outlier_model :: predictor where
  "outlier_model features = Inr (- 1)"

definition broken_model :: predictor where
  "broken_model features = Inl (Exception ''predict failed'')"

definition busy_monitor :: "predictor \<Rightarrow> nat \<Rightarrow> monitor" where
  "busy_monitor p n = fresh_monitor\<lparr>activity_logs := replicate n status_event, model := Some p\<rparr>"

text \<open>A monitor with the single profile of an entity \<^verbatim>\<open>E1\<close>: two calls per minute.\<close>

definition e1_monitor :: monitor where
  "e1_monitor = fresh_monitor\<lparr>normal_patterns :=
     [''E1'' \<mapsto> \<lparr>max_calls_per_minute = 2, allowed_actions = [''ping'']\<rparr>]\<rparr>"

text \<open>Databases and agents for the examples: a vehicle whose diagnosis is critical and asks for
  an appointment.\<close>

definition open_db :: db_service where
  "open_db = \<lparr>get_appointments_by_date = (\<lambda>d. Inr []), store_appointment = (\<lambda>a. Inr ())\<rparr>"

definition failing_store_db :: db_service where
  "failing_store_db = \<lparr>get_appointments_by_date = (\<lambda>d. Inr []),
     store_appointment = (\<lambda>a. Inl (Exception ''PostgreSQL database is not connected''))\<rparr>"

definition battery_diagnosis :: "(schedule_result, string) diagnosis" where
  "battery_diagnosis = \<lparr>critical_alert = True, auto_schedule_flag = True,
     recommended_service = Some ''battery_replacement'', scheduling = None,
     details = ''critical''\<rparr>"

definition battery_agents ::
  "db_service \<Rightarrow> bool \<Rightarrow> (string, string, schedule_result, string, string) agents" where
  "battery_agents db alerts_up =
     \<lparr>data_analysis_agent = (\<lambda>v s. Inr ''anomaly_detected''),
      diagnosis_agent = (\<lambda>v a. Inr battery_diagnosis),
      customer_agent = (\<lambda>v d. if alerts_up then Inr ''sent''
                              else Inl (Exception ''alert could not be stored'')),
      scheduling_agent = auto_schedule db 1700000000000000 1700000000000000\<rparr>"

definition v9_input :: "string \<rightharpoonup> string" where
  "v9_input = [''timestamp'' \<mapsto> ''2023-11-14T22:13:20'']"

section \<open>The ledger keeps the most recent events\<close>

lemma length_last_n: "length (last_n n xs) = min n (length xs)"
  by (simp add: last_n_def)

lemma last_n_snoc: "0 < n \<Longrightarrow> last_n n (last_n n xs @ [x]) = last_n n (xs @ [x])"
  by (cases "n \<le> length xs") (simp_all add: last_n_def Suc_diff_le)

lemma append_activity_last_n:
  "length logs \<le> 10000 \<Longrightarrow> append_activity logs a = last_n 10000 (logs @ [a])"
  by (simp add: append_activity_def last_n_def Let_def)

lemma append_activity_last_n': "append_activity (last_n 10000 xs) a = last_n 10000 (xs @ [a])"
  by (simp add: append_activity_last_n length_last_n last_n_snoc)

lemma foldl_append_activity:
  "length logs \<le> 10000 \<Longrightarrow> foldl append_activity logs es = last_n 10000 (logs @ es)"
proof (induction es rule: rev_induct)
  case Nil
  then show ?case by (simp add: last_n_def)
next
  case (snoc x xs)
  then show ?case
    using append_activity_last_n' [of "logs @ xs" x] by simp
qed

text \<open>
  Every call of \<^verbatim>\<open>log_agent_activity\<close> changes the ledger by one \<open>append_activity\<close>, whatever
  the checks find.
\<close>

lemma activity_logs_log_agent_activity:
  "activity_logs (snd (log_agent_activity e m a act md)) =
     append_activity (activity_logs m) (new_activity e (ticks m) a act md)"
  by (simp add: log_agent_activity_def Let_def handle_anomaly_def with_activity_def
      split: prod.splits option.splits)

text \<open>
  In terms of the calls: after any sequence of calls the ledger holds, in the order of their
  arrival, the last 10000 of the events it held before and of the events of the calls.
\<close>

lemma last_n_append_last_n: "last_n n (last_n n xs @ ys) = last_n n (xs @ ys)"
  by (cases "n \<le> length xs") (simp_all add: last_n_def add.commute)

lemma map_last_n: "map f (last_n n xs) = last_n n (map f xs)"
  by (simp add: last_n_def drop_map)

lemma ledger_after_calls:
  assumes "length (activity_logs m) \<le> 10000"
  shows "map (\<lambda>a. (agent a, action a, metadata a)) (activity_logs (log_all e m cs)) =
     last_n 10000 (map (\<lambda>a. (agent a, action a, metadata a)) (activity_logs m)
       @ map (\<lambda>(a, act, md). (a, act, case md of None \<Rightarrow> [] | Some d \<Rightarrow> d)) cs)"
  using assms
proof (induction cs arbitrary: m)
  case Nil
  then show ?case by (simp add: last_n_def)
next
  case (Cons c cs)
  obtain a act md where c: "c = (a, act, md)" by (cases c)
  let ?m' = "snd (log_agent_activity e m a act md)"
  let ?f = "\<lambda>a. (agent a, action a, metadata a)"
  have l: "activity_logs ?m' =
      last_n 10000 (activity_logs m @ [new_activity e (ticks m) a act md])"
    using Cons.prems by (simp add: activity_logs_log_agent_activity append_activity_last_n)
  then have "length (activity_logs ?m') \<le> 10000"
    by (simp add: length_last_n)
  then have "map ?f (activity_logs (log_all e ?m' cs)) =
     last_n 10000 (map ?f (activity_logs ?m')
       @ map (\<lambda>(a, act, md). (a, act, case md of None \<Rightarrow> [] | Some d \<Rightarrow> d)) cs)"
    by (rule Cons.IH)
  then show ?case
    by (simp add: c l map_last_n last_n_append_last_n new_activity_def)
qed

text \<open>
  Claim C6. After any sequence of appends to an empty ledger, the ledger holds the events that
  arrived, without the oldest ones beyond 10000, in the order of their arrival; it never
  holds more than 10000 events, and after more than 10000 appends it holds exactly the 10000
  most recent ones, whatever their entity.
\<close>

theorem ledger_keeps_most_recent:
  "foldl append_activity [] es = drop (length es - 10000) es
   \<and> length (foldl append_activity [] es) \<le> 10000
   \<and> (10000 < length es \<longrightarrow> length (foldl append_activity [] es) = 10000)"
  using foldl_append_activity [of "[]" es] by (simp add: last_n_def)

text \<open>Claim C6 at 10001 events: the first one is dropped, the other 10000 are kept in order.\<close>

theorem ledger_keeps_most_recent_witness:
  "10000 < length (map sample_event [0..<10001])
   \<and> foldl append_activity [] (map sample_event [0..<10001]) = map sample_event [1..<10001]
   \<and> length (foldl append_activity [] (map sample_event [0..<10001])) = 10000"
  using ledger_keeps_most_recent [of "map sample_event [0..<10001]"]
  by (simp add: drop_map)

section \<open>The three checks\<close>

lemma recent_activities_length:
  "length (fst (recent_activities e a ls k)) \<le> length ls"
proof (induction ls arbitrary: k)
  case Nil
  show ?case by simp
next
  case (Cons l ls)
  obtain r k' where eq: "recent_activities e a ls (Suc k) = (r, k')"
    by (cases "recent_activities e a ls (Suc k)")
  from Cons [of "Suc k"] eq have "length r \<le> length ls" by simp
  with Cons [of k] eq show ?case by simp
qed

lemma recent_activities_ticks:
  "snd (recent_activities e a ls k) \<le> k + length ls"
proof (induction ls arbitrary: k)
  case Nil
  show ?case by simp
next
  case (Cons l ls)
  obtain r k' where eq: "recent_activities e a ls (Suc k) = (r, k')"
    by (cases "recent_activities e a ls (Suc k)")
  from Cons [of "Suc k"] eq have "k' \<le> Suc k + length ls" by simp
  with Cons [of k] eq show ?case by simp
qed

lemma rate_limit_check_silent:
  assumes "normal_patterns m a = Some p" and "100 \<le> max_calls_per_minute p"
  shows "fst (rate_limit_check e m a) = []"
proof -
  have "length (fst (recent_activities e a (last_n 100 (activity_logs m)) (ticks m))) \<le> 100"
    using recent_activities_length [of e a "last_n 100 (activity_logs m)" "ticks m"]
    by (simp add: length_last_n)
  with assms show ?thesis
    by (auto simp: rate_limit_check_def split: prod.splits)
qed

lemma rate_limit_check_ticks:
  "snd (rate_limit_check e m a) \<le> ticks m + 100"
proof -
  have "snd (recent_activities e a (last_n 100 (activity_logs m)) (ticks m)) \<le> ticks m + 100"
    using recent_activities_ticks [of e a "last_n 100 (activity_logs m)" "ticks m"]
    by (simp add: length_last_n)
  then show ?thesis
    by (auto simp: rate_limit_check_def split: option.splits prod.splits)
qed

lemma findings_check_anomaly:
  "findings (fst (check_anomaly e m a act)) =
     fst (rate_limit_check e m a) @ unauthorized_check m a act
       @ fst (ml_check e m a act (snd (rate_limit_check e m a)))"
  by (simp add: check_anomaly_def findings_def Let_def split: prod.splits)

lemma handed_report:
  "(case fst (check_anomaly e m a act) of None \<Rightarrow> [] | Some r \<Rightarrow> [r]) =
     (if findings (fst (check_anomaly e m a act)) = [] then []
      else [\<lparr>detected = True, anomalies = findings (fst (check_anomaly e m a act)),
              rep_agent = a, rep_action = act\<rparr>])"
  by (simp add: check_anomaly_def findings_def Let_def split: prod.splits)

lemma rate_limit_check_types:
  "x \<in> set (fst (rate_limit_check e m a)) \<Longrightarrow>
     anomaly_type x = ''rate_limit_exceeded'' \<and> severity x = ''high''"
  by (auto simp: rate_limit_check_def split: option.splits prod.splits if_splits)

lemma unauthorized_check_types:
  "x \<in> set (unauthorized_check m a act) \<Longrightarrow>
     anomaly_type x = ''unauthorized_action'' \<and> severity x = ''critical''"
  by (auto simp: unauthorized_check_def split: option.splits if_splits)

lemma ml_try_types:
  "ml_try e m p a act k = (Inr xs, k') \<Longrightarrow> x \<in> set xs \<Longrightarrow>
     anomaly_type x = ''ml_anomaly'' \<and> severity x = ''medium''"
  by (auto simp: ml_try_def split: option.splits prod.splits sum.splits if_splits)

lemma ml_check_types:
  "x \<in> set (fst (ml_check e m a act k)) \<Longrightarrow>
     anomaly_type x = ''ml_anomaly'' \<and> severity x = ''medium''"
  by (auto simp: ml_check_def split: option.splits prod.splits sum.splits if_splits
      dest: ml_try_types)

lemma ml_check_needs:
  "x \<in> set (fst (ml_check e m a act k)) \<Longrightarrow>
     model m \<noteq> None \<and> SKLEARN_AVAILABLE e \<and> 10 \<le> length (activity_logs m)
     \<and> 5 \<le> length (filter (\<lambda>l. agent l = a) (last_n 100 (activity_logs m)))"
  by (auto simp: ml_check_def ml_try_def extract_features_def Let_def
      split: option.splits prod.splits sum.splits if_splits)

lemma ml_check_absent:
  assumes "model m = None \<or> \<not> SKLEARN_AVAILABLE e
           \<or> (\<exists>p. model m = Some p \<and> (\<forall>f. \<exists>x. p f = Inl x))"
  shows "fst (ml_check e m a act k) = []"
proof -
  have "fst (ml_check e m a act k) = []" if "model m = Some p" "\<forall>f. \<exists>x. p f = Inl x" for p
  proof -
    have "p f \<noteq> Inr y" for f y
      using that(2) by (metis sum.distinct(1))
    then have "fst (ml_try e m p a act k) = Inr [] \<or> (\<exists>x. fst (ml_try e m p a act k) = Inl x)"
      by (auto simp: ml_try_def split: prod.splits option.splits sum.splits)
    then show ?thesis using that(1)
      by (auto simp: ml_check_def split: prod.splits sum.splits)
  qed
  with assms show ?thesis by (auto simp: ml_check_def split: option.splits)
qed

text \<open>
  Claim C8. For an entity with a registered profile, the findings of a check contain the
  finding \<^verbatim>\<open>unauthorized_action\<close> of severity \<^verbatim>\<open>critical\<close> exactly once when the action is
  not among the allowed actions of the profile, and not at all when it is; this holds for
  every ledger, clock and model, hence whatever the call volume and whatever the rate-limit
  check finds.
\<close>

theorem unauthorized_iff_not_allowed:
  assumes "normal_patterns m a = Some p"
  shows "filter (\<lambda>x. anomaly_type x = ''unauthorized_action'')
           (findings (fst (check_anomaly e m a act))) =
         (if act \<in> set (allowed_actions p) then []
          else [\<lparr>anomaly_type = ''unauthorized_action'', severity = ''critical'',
                  message = ''Agent '' @ a @ '' attempted unauthorized action: '' @ act\<rparr>])"
proof -
  have r: "filter (\<lambda>x. anomaly_type x = ''unauthorized_action'') (fst (rate_limit_check e m a)) = []"
    by (auto simp: filter_empty_conv dest: rate_limit_check_types)
  have l: "filter (\<lambda>x. anomaly_type x = ''unauthorized_action'') (fst (ml_check e m a act k)) = []"
    for k
    by (auto simp: filter_empty_conv dest: ml_check_types)
  have u: "filter (\<lambda>x. anomaly_type x = ''unauthorized_action'') (unauthorized_check m a act) =
      unauthorized_check m a act"
    by (auto simp: filter_id_conv dest: unauthorized_check_types)
  show ?thesis
    using assms by (simp add: findings_check_anomaly r l u) (simp add: unauthorized_check_def)
qed

text \<open>Claim C8 for the customer agent of the source: \<^verbatim>\<open>reboot\<close> is reported, \<^verbatim>\<open>send_alert\<close>
  is not.\<close>

theorem unauthorized_iff_not_allowed_witness:
  "normal_patterns fresh_monitor ''customer_agent'' =
     Some \<lparr>max_calls_per_minute = 50, allowed_actions = [''process_message'', ''send_alert'']\<rparr>
   \<and> filter (\<lambda>x. anomaly_type x = ''unauthorized_action'')
        (findings (fst (check_anomaly clock_env fresh_monitor ''customer_agent'' ''reboot''))) =
      [\<lparr>anomaly_type = ''unauthorized_action'', severity = ''critical'',
        message = ''Agent customer_agent attempted unauthorized action: reboot''\<rparr>]
   \<and> filter (\<lambda>x. anomaly_type x = ''unauthorized_action'')
        (findings (fst (check_anomaly clock_env fresh_monitor ''customer_agent'' ''send_alert''))) = []"
proof -
  have h: "normal_patterns fresh_monitor ''customer_agent'' =
     Some \<lparr>max_calls_per_minute = 50, allowed_actions = [''process_message'', ''send_alert'']\<rparr>"
    by (simp add: fresh_monitor_def default_patterns_def)
  show ?thesis
    using h unauthorized_iff_not_allowed [OF h, of clock_env "''reboot''"]
      unauthorized_iff_not_allowed [OF h, of clock_env "''send_alert''"]
    by simp
qed

text \<open>
  Claim C9. When fewer than 5 of the last 100 events of the ledger belong to the entity, check
  3 gives no finding, whatever the model answers, and the findings of the call contain no
  \<^verbatim>\<open>ml_anomaly\<close> (the source's name for the statistical outlier).
\<close>

theorem no_outlier_verdict_below_five:
  assumes "length (filter (\<lambda>l. agent l = a) (last_n 100 (activity_logs m))) < 5"
  shows "fst (ml_check e m a act k) = []
       \<and> filter (\<lambda>x. anomaly_type x = ''ml_anomaly'') (findings (fst (check_anomaly e m a act))) = []"
proof -
  have none: "fst (ml_check e m a act k) = []" for k
    using assms
    by (auto simp: ml_check_def ml_try_def extract_features_def Let_def
        split: option.splits prod.splits sum.splits)
  have r: "filter (\<lambda>x. anomaly_type x = ''ml_anomaly'') (fst (rate_limit_check e m a)) = []"
    by (auto simp: filter_empty_conv dest: rate_limit_check_types)
  have u: "filter (\<lambda>x. anomaly_type x = ''ml_anomaly'') (unauthorized_check m a act) = []"
    by (auto simp: filter_empty_conv dest: unauthorized_check_types)
  show ?thesis
    by (simp add: findings_check_anomaly none r u)
qed

text \<open>Claim C9 for an entity with 4 events and a model that calls everything an outlier.\<close>

theorem no_outlier_verdict_below_five_witness:
  "length (filter (\<lambda>l. agent l = ''master_agent'')
      (last_n 100 (activity_logs (busy_monitor outlier_model 4)))) < 5
   \<and> fst (ml_check clock_env (busy_monitor outlier_model 4) ''master_agent''
        ''get_vehicle_status'' 0) = []
   \<and> filter (\<lambda>x. anomaly_type x = ''ml_anomaly'')
        (findings (fst (check_anomaly clock_env (busy_monitor outlier_model 4) ''master_agent''
           ''get_vehicle_status''))) = []"
proof -
  have h: "length (filter (\<lambda>l. agent l = ''master_agent'')
      (last_n 100 (activity_logs (busy_monitor outlier_model 4)))) < 5"
    by (simp add: busy_monitor_def fresh_monitor_def status_event_def last_n_def)
  show ?thesis
    using h no_outlier_verdict_below_five [OF h, of clock_env "''get_vehicle_status''" 0]
    by simp
qed

text \<open>Ten events of one entity and a model that calls everything an outlier give the finding;
  nine events of the same entity, more than the 5 that the features need, give none.\<close>

lemma check_anomaly_ten_events:
  "findings (fst (check_anomaly clock_env (busy_monitor outlier_model 10) ''master_agent''
      ''get_vehicle_status'')) =
   [\<lparr>anomaly_type = ''ml_anomaly'', severity = ''medium'',
     message = ''ML model detected anomalous pattern for agent master_agent''\<rparr>]"
  by code_simp

lemma check_anomaly_nine_events:
  "findings (fst (check_anomaly clock_env (busy_monitor outlier_model 9) ''master_agent''
      ''get_vehicle_status'')) = []"
  by code_simp

text \<open>
  Claim C10. A finding \<^verbatim>\<open>ml_anomaly\<close> among the findings of a check implies that the ledger
  holds at least 10 events of any entity, besides at least 5 recent events of the entity
  itself, a model and scikit-learn.
\<close>

theorem outlier_finding_needs_ten_logs:
  assumes "x \<in> set (findings (fst (check_anomaly e m a act)))"
    and "anomaly_type x = ''ml_anomaly''"
  shows "10 \<le> length (activity_logs m)
       \<and> 5 \<le> length (filter (\<lambda>l. agent l = a) (last_n 100 (activity_logs m)))
       \<and> model m \<noteq> None \<and> SKLEARN_AVAILABLE e"
proof -
  from assms(1) have "x \<in> set (fst (rate_limit_check e m a)) \<or> x \<in> set (unauthorized_check m a act)
      \<or> x \<in> set (fst (ml_check e m a act (snd (rate_limit_check e m a))))"
    by (auto simp: findings_check_anomaly)
  with assms(2) have "x \<in> set (fst (ml_check e m a act (snd (rate_limit_check e m a))))"
    by (auto dest: rate_limit_check_types unauthorized_check_types)
  then show ?thesis
    using ml_check_needs by blast
qed

text \<open>Claim C10 at a ledger of exactly 10 events, where the finding is present.\<close>

theorem outlier_finding_needs_ten_logs_witness:
  "\<lparr>anomaly_type = ''ml_anomaly'', severity = ''medium'',
     message = ''ML model detected anomalous pattern for agent master_agent''\<rparr>
     \<in> set (findings (fst (check_anomaly clock_env (busy_monitor outlier_model 10)
          ''master_agent'' ''get_vehicle_status'')))
   \<and> 10 \<le> length (activity_logs (busy_monitor outlier_model 10))
   \<and> 5 \<le> length (filter (\<lambda>l. agent l = ''master_agent'')
        (last_n 100 (activity_logs (busy_monitor outlier_model 10))))
   \<and> model (busy_monitor outlier_model 10) \<noteq> None \<and> SKLEARN_AVAILABLE clock_env"
proof -
  have h: "\<lparr>anomaly_type = ''ml_anomaly'', severity = ''medium'',
     message = ''ML model detected anomalous pattern for agent master_agent''\<rparr>
     \<in> set (findings (fst (check_anomaly clock_env (busy_monitor outlier_model 10)
          ''master_agent'' ''get_vehicle_status'')))"
    by (simp add: check_anomaly_ten_events)
  show ?thesis
    using h outlier_finding_needs_ten_logs [OF h] by simp
qed

section \<open>Recording an activity\<close>

lemma fst_log_agent_activity: "fst (log_agent_activity e m a act md) = None"
  by (simp add: log_agent_activity_def Let_def split: prod.splits)

lemma sink_with_activity: "sink (with_activity e m a act md) = sink m"
  by (simp add: with_activity_def)

lemma sink_log_agent_activity:
  "sink (snd (log_agent_activity e m a act md)) =
     sink m @
     (case fst (check_anomaly e (with_activity e m a act md) a act) of
        None \<Rightarrow> []
      | Some r \<Rightarrow>
          [Warning_alert a act, Error_security_alert r,
           Info_security_log (new_activity e (ticks m) a act md) r
             (utcnow e (snd (check_anomaly e (with_activity e m a act md) a act))) ''logged''])"
  by (simp add: log_agent_activity_def Let_def handle_anomaly_def sink_with_activity
      split: prod.splits option.splits)

lemma reported_append: "reported (xs @ ys) = reported xs @ reported ys"
  by (induction xs rule: reported.induct) simp_all

lemma reported_log_agent_activity:
  "reported (sink (snd (log_agent_activity e m a act md))) =
     reported (sink m) @
     (case fst (check_anomaly e (with_activity e m a act md) a act) of
        None \<Rightarrow> [] | Some r \<Rightarrow> [r])"
  by (simp add: sink_log_agent_activity reported_append split: option.splits)

lemma model_log_agent_activity:
  "model (snd (log_agent_activity e m a act md)) = model m"
  by (simp add: log_agent_activity_def Let_def handle_anomaly_def with_activity_def
      split: prod.splits option.splits)

lemma normal_patterns_log_agent_activity:
  "normal_patterns (snd (log_agent_activity e m a act md)) = normal_patterns m"
  by (simp add: log_agent_activity_def Let_def handle_anomaly_def with_activity_def
      split: prod.splits option.splits)

lemma ticks_log_agent_activity_quiet:
  "check_anomaly e (with_activity e m a act md) a act = (None, k) \<Longrightarrow>
     ticks (snd (log_agent_activity e m a act md)) = k"
  by (simp add: log_agent_activity_def Let_def)

text \<open>
  Claim C1, as stated, at a fresh monitor: the customer agent records the action \<^verbatim>\<open>reboot\<close>,
  which is not allowed; the check finds \<^verbatim>\<open>unauthorized_action\<close> for the event, and the call
  returns \<^verbatim>\<open>None\<close>.
\<close>

theorem record_returns_report_counterexample:
  "fst (log_agent_activity clock_env fresh_monitor ''customer_agent'' ''reboot'' None) = None
   \<and> map anomaly_type (findings (fst (check_anomaly clock_env
        (with_activity clock_env fresh_monitor ''customer_agent'' ''reboot'' None)
        ''customer_agent'' ''reboot''))) = [''unauthorized_action'']"
  by code_simp

text \<open>
  Claim C1, amended. Every call of \<^verbatim>\<open>log_agent_activity\<close> returns \<^verbatim>\<open>None\<close>. The report is
  handed to \<^verbatim>\<open>_handle_anomaly\<close> instead: exactly one report, holding the merged findings of
  the rate-limit, unauthorized-action and outlier checks on the ledger with the new event,
  when there is at least one finding, and no report when there is none.
\<close>

theorem record_hands_report_to_handler:
  "fst (log_agent_activity e m a act md) = None
   \<and> reported (sink (snd (log_agent_activity e m a act md))) =
       reported (sink m) @
       (if findings (fst (check_anomaly e (with_activity e m a act md) a act)) = [] then []
        else [\<lparr>detected = True,
                anomalies = findings (fst (check_anomaly e (with_activity e m a act md) a act)),
                rep_agent = a, rep_action = act\<rparr>])
   \<and> findings (fst (check_anomaly e (with_activity e m a act md) a act)) =
       fst (rate_limit_check e (with_activity e m a act md) a)
       @ unauthorized_check (with_activity e m a act md) a act
       @ fst (ml_check e (with_activity e m a act md) a act
           (snd (rate_limit_check e (with_activity e m a act md) a)))"
proof -
  let ?m1 = "with_activity e m a act md"
  have "reported (sink (snd (log_agent_activity e m a act md))) =
       reported (sink m) @
       (if findings (fst (check_anomaly e ?m1 a act)) = [] then []
        else [\<lparr>detected = True, anomalies = findings (fst (check_anomaly e ?m1 a act)),
                rep_agent = a, rep_action = act\<rparr>])"
    by (simp only: reported_log_agent_activity handed_report)
  then show ?thesis
    using findings_check_anomaly [of e ?m1 a act] by (simp add: fst_log_agent_activity)
qed

text \<open>Without scikit-learn, a missing or unreadable model file leaves the monitor without a
  model; the constructor does not raise.\<close>

lemma init_monitor_without_sklearn:
  assumes "\<not> SKLEARN_AVAILABLE e" and "stored = None \<or> stored = Some (Inl x)"
  shows "init_monitor e stored trained 0 = Inr fresh_monitor"
  using assms by (auto simp: init_monitor_def load_or_create_model_def create_model_def fresh_monitor_def)

text \<open>
  An exception of the model is caught: when the model raises on the features of the call,
  check 3 gives no finding, and the call still ends. The same holds without a model or
  without scikit-learn.
\<close>

lemma ml_check_caught:
  assumes "model m = Some p" and "fst (extract_features e m a act k) = Some fs"
    and "p fs = Inl x"
  shows "fst (ml_check e m a act k) = []"
  using assms
  by (cases "extract_features e m a act k") (simp add: ml_check_def ml_try_def)

text \<open>The report of such a call is that of checks 1 and 2, as the code computes them.\<close>

lemma report_when_model_fails:
  assumes "model m = None \<or> \<not> SKLEARN_AVAILABLE e
     \<or> (\<exists>p fs x. model m = Some p
          \<and> fst (extract_features e (with_activity e m a act md) a act
                (snd (rate_limit_check e (with_activity e m a act md) a))) = Some fs
          \<and> p fs = Inl x)"
  shows "reported (sink (snd (log_agent_activity e m a act md))) =
         reported (sink m) @
         (if policy_findings e (with_activity e m a act md) a act = [] then []
          else [\<lparr>detected = True,
                  anomalies = policy_findings e (with_activity e m a act md) a act,
                  rep_agent = a, rep_action = act\<rparr>])"
proof -
  let ?m1 = "with_activity e m a act md"
  let ?k = "snd (rate_limit_check e ?m1 a)"
  have mm: "model ?m1 = model m"
    by (simp add: with_activity_def)
  from assms have "fst (ml_check e ?m1 a act ?k) = []"
  proof (elim disjE exE conjE)
    assume "model m = None"
    then show ?thesis by (simp add: ml_check_absent mm)
  next
    assume "\<not> SKLEARN_AVAILABLE e"
    then show ?thesis by (simp add: ml_check_absent)
  next
    fix p fs x
    assume "model m = Some p" and "fst (extract_features e ?m1 a act ?k) = Some fs"
      and "p fs = Inl x"
    then show ?thesis
      using ml_check_caught [of ?m1 p e a act ?k fs x] by (simp add: mm)
  qed
  then have f: "findings (fst (check_anomaly e ?m1 a act)) = policy_findings e ?m1 a act"
    by (simp add: findings_check_anomaly policy_findings_def)
  show ?thesis
    using handed_report [of e ?m1 a act]
    by (simp add: reported_log_agent_activity f)
qed

text \<open>A model that raises, on a ledger long enough for check 3 to call it: the body of the
  \<^verbatim>\<open>try\<close> raises and the handler gets the report of the unauthorized action.\<close>

lemma broken_model_raises:
  "fst (ml_try clock_env
      (with_activity clock_env (busy_monitor broken_model 10) ''master_agent'' ''reboot'' None)
      broken_model ''master_agent'' ''reboot'' 14) = Inl (Exception ''predict failed'')"
  by code_simp

lemma broken_model_report:
  "reported (sink (snd (log_agent_activity clock_env (busy_monitor broken_model 10)
        ''master_agent'' ''reboot'' None))) =
      [\<lparr>detected = True,
        anomalies = [\<lparr>anomaly_type = ''unauthorized_action'', severity = ''critical'',
          message = ''Agent master_agent attempted unauthorized action: reboot''\<rparr>],
        rep_agent = ''master_agent'', rep_action = ''reboot''\<rparr>]"
  by code_simp

section \<open>The rate limit and the window of 100 logs\<close>

text \<open>
  Check 1 counts among the last 100 logs only, so a limit of 100 or more is never exceeded:
  see \<open>rate_limit_check_silent\<close>. A call by such an entity with an allowed action and without
  a model leaves the logger untouched.
\<close>

lemma quiet_call:
  assumes "model m = None" and "normal_patterns m a = Some p"
    and "100 \<le> max_calls_per_minute p" and "act \<in> set (allowed_actions p)"
  shows "sink (snd (log_agent_activity e m a act md)) = sink m"
    and "model (snd (log_agent_activity e m a act md)) = None"
    and "normal_patterns (snd (log_agent_activity e m a act md)) = normal_patterns m"
    and "ticks (snd (log_agent_activity e m a act md)) \<le> ticks m + 103"
proof -
  let ?m1 = "with_activity e m a act md"
  have m1: "model ?m1 = None" "normal_patterns ?m1 a = Some p" "ticks ?m1 = ticks m + 3"
    using assms by (simp_all add: with_activity_def)
  have r: "fst (rate_limit_check e ?m1 a) = []"
    using m1(2) assms(3) by (rule rate_limit_check_silent)
  have u: "unauthorized_check ?m1 a act = []"
    using m1(2) assms(4) by (simp add: unauthorized_check_def)
  have l: "ml_check e ?m1 a act k = ([], k)" for k
    using m1(1) by (simp add: ml_check_def)
  have c: "check_anomaly e ?m1 a act = (None, snd (rate_limit_check e ?m1 a))"
    using r u l by (cases "rate_limit_check e ?m1 a") (simp add: check_anomaly_def)
  show "sink (snd (log_agent_activity e m a act md)) = sink m"
    by (simp add: sink_log_agent_activity c)
  show "model (snd (log_agent_activity e m a act md)) = None"
    using assms(1) by (simp add: model_log_agent_activity)
  show "normal_patterns (snd (log_agent_activity e m a act md)) = normal_patterns m"
    by (simp add: normal_patterns_log_agent_activity)
  have "ticks (snd (log_agent_activity e m a act md)) = snd (rate_limit_check e ?m1 a)"
    using c by (rule ticks_log_agent_activity_quiet)
  then show "ticks (snd (log_agent_activity e m a act md)) \<le> ticks m + 103"
    using rate_limit_check_ticks [of e ?m1 a] m1(3) by simp
qed

lemma quiet_calls:
  assumes "model m = None" and "normal_patterns m a = Some p"
    and "100 \<le> max_calls_per_minute p" and "act \<in> set (allowed_actions p)"
  shows "sink (log_all e m (replicate n (a, act, md))) = sink m
       \<and> ticks (log_all e m (replicate n (a, act, md))) \<le> ticks m + 103 * n"
  using assms
proof (induction n arbitrary: m)
  case 0
  show ?case by simp
next
  case (Suc n)
  let ?m' = "snd (log_agent_activity e m a act md)"
  note q = quiet_call [OF Suc.prems, of e md]
  have "sink (log_all e ?m' (replicate n (a, act, md))) = sink ?m'
       \<and> ticks (log_all e ?m' (replicate n (a, act, md))) \<le> ticks ?m' + 103 * n"
    using q(2) q(3) Suc.prems by (intro Suc.IH) simp_all
  with q(1) q(4) show ?case by simp
qed

lemma length_log_all:
  "length (activity_logs m) + length cs \<le> 10000 \<Longrightarrow>
     length (activity_logs (log_all e m cs)) = length (activity_logs m) + length cs"
proof (induction cs arbitrary: m)
  case Nil
  show ?case by simp
next
  case (Cons c cs)
  obtain a act md where c: "c = (a, act, md)" by (cases c)
  let ?m' = "snd (log_agent_activity e m a act md)"
  have l: "length (activity_logs ?m') = Suc (length (activity_logs m))"
    using Cons.prems by (simp add: activity_logs_log_agent_activity append_activity_def Let_def)
  with Cons.prems have "length (activity_logs (log_all e ?m' cs)) = length (activity_logs ?m') + length cs"
    by (intro Cons.IH) simp
  with l show ?case by (simp add: c)
qed

text \<open>With a limit of 2, two calls within a second leave the logger untouched and the third
  is reported.\<close>

lemma limit_of_two_is_enforced:
  "sink (log_all clock_env e1_monitor (replicate 2 (''E1'', ''ping'', None))) = []
   \<and> map (map anomaly_type \<circ> anomalies)
       (reported (sink (log_all clock_env e1_monitor (replicate 3 (''E1'', ''ping'', None))))) =
     [[''rate_limit_exceeded'']]"
  by code_simp

text \<open>
  Claim C3 at the master agent of the source, whose limit is 100: 101 calls are recorded
  within 60 seconds on a fresh monitor, the ledger holds all 101 events, and nothing has
  reached the logger or the handler, so the 101st call has not yielded \<^verbatim>\<open>rate_limit_exceeded\<close>.
\<close>

theorem hundred_and_first_call_unreported:
  "sink (log_all clock_env fresh_monitor
      (replicate 101 (''master_agent'', ''process_telematics_data'', None))) = []
   \<and> length (activity_logs (log_all clock_env fresh_monitor
      (replicate 101 (''master_agent'', ''process_telematics_data'', None)))) = 101
   \<and> utcnow clock_env (ticks (log_all clock_env fresh_monitor
      (replicate 101 (''master_agent'', ''process_telematics_data'', None))))
       - utcnow clock_env 0 < 60000000"
proof -
  let ?p = "\<lparr>max_calls_per_minute = 100,
        allowed_actions = [''process_telematics_data'', ''handle_customer_query'',
          ''schedule_maintenance'', ''submit_feedback'', ''get_vehicle_status'']\<rparr>"
  have a: "model fresh_monitor = None" "normal_patterns fresh_monitor ''master_agent'' = Some ?p"
    by (simp_all add: fresh_monitor_def default_patterns_def)
  have b: "100 \<le> max_calls_per_minute ?p" "''process_telematics_data'' \<in> set (allowed_actions ?p)"
    by simp_all
  note q = quiet_calls [OF a b, of clock_env 101 None]
  have s: "sink fresh_monitor = []" "ticks fresh_monitor = 0" "activity_logs fresh_monitor = []"
    by (simp_all add: fresh_monitor_def)
  have n: "length (activity_logs (log_all clock_env fresh_monitor
      (replicate 101 (''master_agent'', ''process_telematics_data'', None)))) = 101"
    using length_log_all [of fresh_monitor
        "replicate 101 (''master_agent'', ''process_telematics_data'', None)" clock_env]
    by (simp add: s)
  show ?thesis
    using q n by (simp add: s clock_env_def)
qed

text \<open>
  The clock readings of a call are bounded, so many calls fit into a minute; the model and
  the profiles stay as they are.
\<close>

lemma ml_check_ticks: "snd (ml_check e m a act k) \<le> k + 2"
  by (auto simp: ml_check_def ml_try_def extract_features_def Let_def
      split: option.splits prod.splits sum.splits)

lemma check_anomaly_ticks: "snd (check_anomaly e m a act) \<le> ticks m + 102"
proof -
  obtain a1 k1 where r: "rate_limit_check e m a = (a1, k1)"
    by (cases "rate_limit_check e m a")
  obtain a3 k3 where l: "ml_check e m a act k1 = (a3, k3)"
    by (cases "ml_check e m a act k1")
  have "k1 \<le> ticks m + 100"
    using rate_limit_check_ticks [of e m a] r by simp
  moreover have "k3 \<le> k1 + 2"
    using ml_check_ticks [of e m a act k1] l by simp
  ultimately show ?thesis
    by (simp add: check_anomaly_def r l Let_def)
qed

lemma ticks_log_agent_activity:
  "ticks (snd (log_agent_activity e m a act md)) \<le> ticks m + 106"
proof -
  let ?m1 = "with_activity e m a act md"
  obtain found k where c: "check_anomaly e ?m1 a act = (found, k)"
    by (cases "check_anomaly e ?m1 a act")
  have "k \<le> ticks ?m1 + 102"
    using check_anomaly_ticks [of e ?m1 a act] c by simp
  then have k: "k \<le> ticks m + 105"
    by (simp add: with_activity_def)
  have "ticks (snd (log_agent_activity e m a act md)) \<le> Suc k"
    by (simp add: log_agent_activity_def Let_def c handle_anomaly_def split: option.splits)
  with k show ?thesis by simp
qed

lemma ticks_log_all: "ticks (log_all e m cs) \<le> ticks m + 106 * length cs"
proof (induction cs arbitrary: m)
  case Nil
  show ?case by simp
next
  case (Cons c cs)
  obtain a act md where c: "c = (a, act, md)" by (cases c)
  let ?m' = "snd (log_agent_activity e m a act md)"
  have "ticks (log_all e ?m' cs) \<le> ticks ?m' + 106 * length cs"
    by (rule Cons.IH)
  with ticks_log_agent_activity [of e m a act md] show ?case
    by (simp add: c)
qed

lemma log_all_append: "log_all e m (xs @ ys) = log_all e (log_all e m xs) ys"
proof (induction xs arbitrary: m)
  case Nil
  show ?case by simp
next
  case (Cons c cs)
  obtain a act md where c: "c = (a, act, md)" by (cases c)
  from Cons show ?case by (simp add: c)
qed

lemma model_log_all: "model (log_all e m cs) = model m"
proof (induction cs arbitrary: m)
  case Nil
  show ?case by simp
next
  case (Cons c cs)
  obtain a act md where c: "c = (a, act, md)" by (cases c)
  from Cons show ?case by (simp add: c model_log_agent_activity)
qed

lemma normal_patterns_log_all: "normal_patterns (log_all e m cs) = normal_patterns m"
proof (induction cs arbitrary: m)
  case Nil
  show ?case by simp
next
  case (Cons c cs)
  obtain a act md where c: "c = (a, act, md)" by (cases c)
  from Cons show ?case by (simp add: c normal_patterns_log_agent_activity)
qed

text \<open>Without a model, an action that is not allowed is reported alone when the limit of the
  entity is 100 or more, whatever the ledger holds.\<close>

lemma unauthorized_call_over_limit:
  assumes "model m = None" and "normal_patterns m a = Some p"
    and "100 \<le> max_calls_per_minute p" and "act \<notin> set (allowed_actions p)"
  shows "reported (sink (snd (log_agent_activity e m a act md))) =
     reported (sink m) @
     [\<lparr>detected = True,
       anomalies = [\<lparr>anomaly_type = ''unauthorized_action'', severity = ''critical'',
         message = ''Agent '' @ a @ '' attempted unauthorized action: '' @ act\<rparr>],
       rep_agent = a, rep_action = act\<rparr>]"
proof -
  let ?m1 = "with_activity e m a act md"
  have m1: "model ?m1 = None" "normal_patterns ?m1 a = Some p"
    using assms by (simp_all add: with_activity_def)
  have r: "fst (rate_limit_check e ?m1 a) = []"
    using m1(2) assms(3) by (rule rate_limit_check_silent)
  have u: "unauthorized_check ?m1 a act =
      [\<lparr>anomaly_type = ''unauthorized_action'', severity = ''critical'',
        message = ''Agent '' @ a @ '' attempted unauthorized action: '' @ act\<rparr>]"
    using m1(2) assms(4) by (simp add: unauthorized_check_def)
  have l: "fst (ml_check e ?m1 a act k) = []" for k
    using m1(1) by (simp add: ml_check_def)
  have "findings (fst (check_anomaly e ?m1 a act)) =
      [\<lparr>anomaly_type = ''unauthorized_action'', severity = ''critical'',
        message = ''Agent '' @ a @ '' attempted unauthorized action: '' @ act\<rparr>]"
    by (simp add: findings_check_anomaly r u l)
  then show ?thesis
    by (simp add: reported_log_agent_activity handed_report)
qed

text \<open>
  Claim C7 at a process without scikit-learn whose model file is corrupt. The constructor
  gives a monitor without a model and no call raises. The data analysis agent, whose limit
  is 200, records 201 calls within 60 seconds: nothing reaches the logger or the handler, so
  the 201st call has not yielded \<^verbatim>\<open>rate_limit_exceeded\<close>. Its 202nd call, in the same minute
  and with an action that is not allowed, yields \<^verbatim>\<open>unauthorized_action\<close> alone: the
  allow-list finding is produced, the rate-limit finding is not.
\<close>

theorem absent_model_rate_limit_missing:
  "init_monitor no_sklearn_env (Some (Inl (Exception ''model file is corrupt'')))
      (Inl (Exception ''scikit-learn is missing'')) 0 = Inr fresh_monitor
   \<and> sink (log_all no_sklearn_env fresh_monitor
        (replicate 201 (''data_analysis_agent'', ''analyze_data'', None))) = []
   \<and> reported (sink (log_all no_sklearn_env fresh_monitor
        (replicate 201 (''data_analysis_agent'', ''analyze_data'', None)
          @ [(''data_analysis_agent'', ''reboot'', None)]))) =
      [\<lparr>detected = True,
        anomalies = [\<lparr>anomaly_type = ''unauthorized_action'', severity = ''critical'',
          message = ''Agent data_analysis_agent attempted unauthorized action: reboot''\<rparr>],
        rep_agent = ''data_analysis_agent'', rep_action = ''reboot''\<rparr>]
   \<and> utcnow no_sklearn_env (ticks (log_all no_sklearn_env fresh_monitor
        (replicate 201 (''data_analysis_agent'', ''analyze_data'', None)
          @ [(''data_analysis_agent'', ''reboot'', None)])))
       - utcnow no_sklearn_env 0 < 60000000"
proof -
  let ?p = "\<lparr>max_calls_per_minute = 200,
        allowed_actions = [''analyze_data'', ''get_latest_analysis'']\<rparr>"
  let ?calls = "replicate 201 (''data_analysis_agent'', ''analyze_data'', None)"
  let ?m = "log_all no_sklearn_env fresh_monitor ?calls"
  have i: "init_monitor no_sklearn_env (Some (Inl (Exception ''model file is corrupt'')))
      (Inl (Exception ''scikit-learn is missing'')) 0 = Inr fresh_monitor"
    by (rule init_monitor_without_sklearn) (simp_all add: no_sklearn_env_def)
  have a: "model fresh_monitor = None"
    "normal_patterns fresh_monitor ''data_analysis_agent'' = Some ?p"
    by (simp_all add: fresh_monitor_def default_patterns_def)
  have b: "100 \<le> max_calls_per_minute ?p" "''analyze_data'' \<in> set (allowed_actions ?p)"
    by simp_all
  have s: "sink fresh_monitor = []" "ticks fresh_monitor = 0"
    by (simp_all add: fresh_monitor_def)
  have q: "sink ?m = []"
    using quiet_calls [OF a b, of no_sklearn_env 201 None] by (simp add: s)
  have m: "model ?m = None" "normal_patterns ?m ''data_analysis_agent'' = Some ?p"
    using a by (simp_all add: model_log_all normal_patterns_log_all)
  have c: "''reboot'' \<notin> set (allowed_actions ?p)"
    by simp
  have r: "reported (sink (log_all no_sklearn_env fresh_monitor
        (?calls @ [(''data_analysis_agent'', ''reboot'', None)]))) =
      [\<lparr>detected = True,
        anomalies = [\<lparr>anomaly_type = ''unauthorized_action'', severity = ''critical'',
          message = ''Agent data_analysis_agent attempted unauthorized action: reboot''\<rparr>],
        rep_agent = ''data_analysis_agent'', rep_action = ''reboot''\<rparr>]"
    using unauthorized_call_over_limit [OF m b(1) c, of no_sklearn_env None]
    by (simp add: log_all_append q)
  have t: "ticks (log_all no_sklearn_env fresh_monitor
        (?calls @ [(''data_analysis_agent'', ''reboot'', None)])) \<le> 106 * 202"
    using ticks_log_all [of no_sklearn_env fresh_monitor
        "?calls @ [(''data_analysis_agent'', ''reboot'', None)]"]
    by (simp add: s)
  show ?thesis
    using i q r t by (simp add: no_sklearn_env_def)
qed

section \<open>The pipeline\<close>

lemma monitor_process_telematics_data:
  "fst (snd (process_telematics_data A e m v s)) =
     snd (log_agent_activity e m ''master_agent'' ''process_telematics_data''
       (Some [(''vehicle_id'', v)]))"
  by (simp add: process_telematics_data_def Let_def split: sum.splits)

lemma calls_process_telematics_data:
  "snd (snd (process_telematics_data A e m v s)) =
     [Log_activity ''master_agent'' ''process_telematics_data'', Analyze_data v] @
     (case data_analysis_agent A v s of
        Inl _ \<Rightarrow> []
      | Inr an \<Rightarrow>
          Predict_failures v #
          (case diagnosis_agent A v an of
             Inl _ \<Rightarrow> []
           | Inr d \<Rightarrow>
               (if critical_alert d then
                  Send_alert v #
                  (case customer_agent A v d of
                     Inl _ \<Rightarrow> []
                   | Inr _ \<Rightarrow>
                       (if auto_schedule_flag d
                        then [Auto_schedule v (recommended_service d)] else []))
                else [])))"
  by (simp add: process_telematics_data_def Let_def split: sum.splits)

lemma result_process_telematics_data:
  assumes "data_analysis_agent A v s = Inr an" and "diagnosis_agent A v an = Inr d"
  shows "fst (process_telematics_data A e m v s) =
     (if critical_alert d then
        (case customer_agent A v d of
           Inl x \<Rightarrow> Inl x
         | Inr _ \<Rightarrow>
             (if auto_schedule_flag d then
                (case scheduling_agent A v (recommended_service d) of
                   Inl x \<Rightarrow> Inl x
                 | Inr r \<Rightarrow>
                     Inr \<lparr>out_vehicle_id = v, analysis = an,
                          diagnosis = d\<lparr>scheduling := Some r\<rparr>,
                          out_timestamp = s ''timestamp''\<rparr>)
              else Inr \<lparr>out_vehicle_id = v, analysis = an, diagnosis = d,
                        out_timestamp = s ''timestamp''\<rparr>))
      else Inr \<lparr>out_vehicle_id = v, analysis = an, diagnosis = d,
                out_timestamp = s ''timestamp''\<rparr>)"
  using assms by (simp add: process_telematics_data_def Let_def split: sum.splits)

lemma battery_run_scheduled:
  "scheduling_agent (battery_agents open_db True) ''V9'' (Some ''battery_replacement'') =
     Inr (Scheduled \<lparr>apt_vehicle_id = ''V9'', apt_service_type = Some ''battery_replacement'',
       apt_date = 1700086400000000, apt_time = 9, apt_status = ''scheduled'',
       estimated_duration = 60, created_at = 1700000000000000\<rparr>)"
  by code_simp

lemma failing_store_raises:
  "scheduling_agent (battery_agents failing_store_db True) ''V9'' (Some ''battery_replacement'')
     = Inl (Exception ''PostgreSQL database is not connected'')"
  by code_simp

text \<open>
  Claim C4, as stated, at a run that goes through all four stages: the monitor records one
  event, for the action \<^verbatim>\<open>process_telematics_data\<close> of the master agent, and none for the
  calls of diagnosis, notification and scheduling.
\<close>

theorem one_record_per_run_counterexample:
  "snd (snd (process_telematics_data (battery_agents open_db True) clock_env fresh_monitor
      ''V9'' v9_input)) =
     [Log_activity ''master_agent'' ''process_telematics_data'', Analyze_data ''V9'',
      Predict_failures ''V9'', Send_alert ''V9'',
      Auto_schedule ''V9'' (Some ''battery_replacement'')]
   \<and> map (\<lambda>a. (agent a, action a))
       (activity_logs (fst (snd (process_telematics_data (battery_agents open_db True)
          clock_env fresh_monitor ''V9'' v9_input)))) =
     [(''master_agent'', ''process_telematics_data'')]"
  by code_simp

text \<open>
  Claim C4, amended. Every run records exactly one activity event, that of the master agent
  for \<^verbatim>\<open>process_telematics_data\<close>, and records it before the analysis call, hence before
  every agent call of the run; the event stays recorded whatever the agents do afterwards.
\<close>

theorem run_records_once_before_analysis:
  "fst (snd (process_telematics_data A e m v s)) =
     snd (log_agent_activity e m ''master_agent'' ''process_telematics_data''
       (Some [(''vehicle_id'', v)]))
   \<and> take 2 (snd (snd (process_telematics_data A e m v s))) =
       [Log_activity ''master_agent'' ''process_telematics_data'', Analyze_data v]
   \<and> filter is_record (snd (snd (process_telematics_data A e m v s))) =
       [Log_activity ''master_agent'' ''process_telematics_data'']"
  by (simp add: monitor_process_telematics_data calls_process_telematics_data
      split: sum.splits)

text \<open>
  Claim C5, as stated, at a run whose diagnosis is critical and asks for an appointment while
  the notification raises: the scheduling agent is not called and the run raises.
\<close>

theorem notify_failure_skips_schedule_counterexample:
  "critical_alert battery_diagnosis \<and> auto_schedule_flag battery_diagnosis
   \<and> snd (snd (process_telematics_data (battery_agents open_db False) clock_env fresh_monitor
      ''V9'' v9_input)) =
     [Log_activity ''master_agent'' ''process_telematics_data'', Analyze_data ''V9'',
      Predict_failures ''V9'', Send_alert ''V9'']
   \<and> fst (process_telematics_data (battery_agents open_db False) clock_env fresh_monitor
      ''V9'' v9_input) = Inl (Exception ''alert could not be stored'')"
  by code_simp

text \<open>
  Claim C5, amended. In a run whose diagnosis returns: a diagnosis that is not critical leads
  to no notification and no scheduling; a critical one without \<^verbatim>\<open>auto_schedule\<close> to the
  notification alone; a critical one with \<^verbatim>\<open>auto_schedule\<close> to the notification and, when the
  notification returns, to the scheduling after it, whose result, when it returns, is stored
  in the diagnosis of the outcome. An exception of either call ends the run.
\<close>

theorem branching_on_diagnosis:
  assumes "data_analysis_agent A v s = Inr an" and "diagnosis_agent A v an = Inr d"
  shows "snd (snd (process_telematics_data A e m v s)) =
     [Log_activity ''master_agent'' ''process_telematics_data'', Analyze_data v,
      Predict_failures v] @
     (if critical_alert d then
        Send_alert v #
        (if auto_schedule_flag d then
           (case customer_agent A v d of
              Inl x \<Rightarrow> []
            | Inr n \<Rightarrow> [Auto_schedule v (recommended_service d)])
         else [])
      else [])
   \<and> fst (process_telematics_data A e m v s) =
     (if critical_alert d then
        (case customer_agent A v d of
           Inl x \<Rightarrow> Inl x
         | Inr n \<Rightarrow>
             (if auto_schedule_flag d then
                (case scheduling_agent A v (recommended_service d) of
                   Inl x \<Rightarrow> Inl x
                 | Inr r \<Rightarrow>
                     Inr \<lparr>out_vehicle_id = v, analysis = an,
                          diagnosis = d\<lparr>scheduling := Some r\<rparr>,
                          out_timestamp = s ''timestamp''\<rparr>)
              else Inr \<lparr>out_vehicle_id = v, analysis = an, diagnosis = d,
                        out_timestamp = s ''timestamp''\<rparr>))
      else Inr \<lparr>out_vehicle_id = v, analysis = an, diagnosis = d,
                out_timestamp = s ''timestamp''\<rparr>)"
  using assms result_process_telematics_data [OF assms, of e m]
  by (simp add: calls_process_telematics_data split: sum.splits)

text \<open>Claim C5 at a run where every agent returns: both calls, in order, and the appointment
  in the diagnosis.\<close>

theorem branching_on_diagnosis_witness:
  "data_analysis_agent (battery_agents open_db True) ''V9'' v9_input = Inr ''anomaly_detected''
   \<and> diagnosis_agent (battery_agents open_db True) ''V9'' ''anomaly_detected''
       = Inr battery_diagnosis
   \<and> snd (snd (process_telematics_data (battery_agents open_db True) clock_env fresh_monitor
        ''V9'' v9_input)) =
      [Log_activity ''master_agent'' ''process_telematics_data'', Analyze_data ''V9'',
       Predict_failures ''V9'', Send_alert ''V9'',
       Auto_schedule ''V9'' (Some ''battery_replacement'')]
   \<and> fst (process_telematics_data (battery_agents open_db True) clock_env fresh_monitor
        ''V9'' v9_input) =
      Inr \<lparr>out_vehicle_id = ''V9'', analysis = ''anomaly_detected'',
           diagnosis = battery_diagnosis\<lparr>scheduling := Some (Scheduled
             \<lparr>apt_vehicle_id = ''V9'', apt_service_type = Some ''battery_replacement'',
              apt_date = 1700086400000000, apt_time = 9, apt_status = ''scheduled'',
              estimated_duration = 60, created_at = 1700000000000000\<rparr>)\<rparr>,
           out_timestamp = Some ''2023-11-14T22:13:20''\<rparr>"
proof -
  have a: "data_analysis_agent (battery_agents open_db True) ''V9'' v9_input
      = Inr ''anomaly_detected''"
    by (simp add: battery_agents_def)
  have d: "diagnosis_agent (battery_agents open_db True) ''V9'' ''anomaly_detected''
      = Inr battery_diagnosis"
    by (simp add: battery_agents_def)
  have n: "customer_agent (battery_agents open_db True) ''V9'' battery_diagnosis = Inr ''sent''"
    by (simp add: battery_agents_def)
  have f: "critical_alert battery_diagnosis" "auto_schedule_flag battery_diagnosis"
    "recommended_service battery_diagnosis = Some ''battery_replacement''"
    by (simp_all add: battery_diagnosis_def)
  have t: "v9_input ''timestamp'' = Some ''2023-11-14T22:13:20''"
    by (simp add: v9_input_def)
  show ?thesis
    using branching_on_diagnosis [OF a d, of clock_env fresh_monitor]
    by (simp add: a d n f t battery_run_scheduled)
qed

text \<open>
  Claim C2, as stated, at a run whose diagnosis is critical and asks for an appointment while
  the database refuses to store it: \<^verbatim>\<open>auto_schedule\<close> raises and so does the run.
\<close>

theorem schedule_failure_degrades_counterexample:
  "critical_alert battery_diagnosis \<and> auto_schedule_flag battery_diagnosis
   \<and> scheduling_agent (battery_agents failing_store_db True) ''V9''
       (Some ''battery_replacement'') = Inl (Exception ''PostgreSQL database is not connected'')
   \<and> fst (process_telematics_data (battery_agents failing_store_db True) clock_env
       fresh_monitor ''V9'' v9_input) = Inl (Exception ''PostgreSQL database is not connected'')"
  by code_simp

text \<open>
  Claim C2, amended. In a run whose diagnosis is critical and asks for an appointment and
  whose notification has returned, an exception of the scheduling call is raised to the
  caller of the run: no outcome is returned. The notification has been called before.
\<close>

theorem schedule_failure_propagates:
  assumes "data_analysis_agent A v s = Inr an" and "diagnosis_agent A v an = Inr d"
    and "critical_alert d" and "auto_schedule_flag d"
    and "customer_agent A v d = Inr n"
    and "scheduling_agent A v (recommended_service d) = Inl x"
  shows "fst (process_telematics_data A e m v s) = Inl x
       \<and> snd (snd (process_telematics_data A e m v s)) =
           [Log_activity ''master_agent'' ''process_telematics_data'', Analyze_data v,
            Predict_failures v, Send_alert v, Auto_schedule v (recommended_service d)]"
  using assms result_process_telematics_data [OF assms(1,2), of e m]
  by (simp add: calls_process_telematics_data)

text \<open>Claim C2, amended, at the database that refuses to store the appointment.\<close>

theorem schedule_failure_propagates_witness:
  "data_analysis_agent (battery_agents failing_store_db True) ''V9'' v9_input
     = Inr ''anomaly_detected''
   \<and> diagnosis_agent (battery_agents failing_store_db True) ''V9'' ''anomaly_detected''
       = Inr battery_diagnosis
   \<and> critical_alert battery_diagnosis \<and> auto_schedule_flag battery_diagnosis
   \<and> customer_agent (battery_agents failing_store_db True) ''V9'' battery_diagnosis = Inr ''sent''
   \<and> scheduling_agent (battery_agents failing_store_db True) ''V9''
       (recommended_service battery_diagnosis)
       = Inl (Exception ''PostgreSQL database is not connected'')
   \<and> fst (process_telematics_data (battery_agents failing_store_db True) clock_env
       fresh_monitor ''V9'' v9_input) = Inl (Exception ''PostgreSQL database is not connected'')
   \<and> snd (snd (process_telematics_data (battery_agents failing_store_db True) clock_env
       fresh_monitor ''V9'' v9_input)) =
      [Log_activity ''master_agent'' ''process_telematics_data'', Analyze_data ''V9'',
       Predict_failures ''V9'', Send_alert ''V9'',
       Auto_schedule ''V9'' (Some ''battery_replacement'')]"
proof -
  have a: "data_analysis_agent (battery_agents failing_store_db True) ''V9'' v9_input
      = Inr ''anomaly_detected''"
    by (simp add: battery_agents_def)
  have d: "diagnosis_agent (battery_agents failing_store_db True) ''V9'' ''anomaly_detected''
      = Inr battery_diagnosis"
    by (simp add: battery_agents_def)
  have c: "critical_alert battery_diagnosis" and f: "auto_schedule_flag battery_diagnosis"
    by (simp_all add: battery_diagnosis_def)
  have n: "customer_agent (battery_agents failing_store_db True) ''V9'' battery_diagnosis
      = Inr ''sent''"
    by (simp add: battery_agents_def)
  have r: "recommended_service battery_diagnosis = Some ''battery_replacement''"
    by (simp add: battery_diagnosis_def)
  have x: "scheduling_agent (battery_agents failing_store_db True) ''V9''
       (recommended_service battery_diagnosis)
       = Inl (Exception ''PostgreSQL database is not connected'')"
    by (simp only: r failing_store_raises)
  show ?thesis
    using a d c f n x schedule_failure_propagates [OF a d c f n x, of clock_env fresh_monitor]
    by (simp add: r)
qed

end
